theory Spec2Isabelle
  imports Complex_Main "HOL-Library.Word" "HOL-Library.AList"
begin

section \<open>Python values used by tt_media_player.py\<close>

text \<open>
  Strings are lists of code points below 256 (one \<^typ>\<open>char\<close> each); a query with a
  code point beyond that range is outside this model. Timestamps are the floats
  returned by \<open>time.time()\<close>, read as reals.
\<close>

datatype error =
    NameError string
  | ImportError string
  | KeyError string
  | IndexError
  | TypeError
  | ValueError
  | OSError
  | SearchError
  | DownloadError

text \<open>\<open>s.startswith(p)\<close>, \<open>s.endswith(p)\<close> and \<open>sub in s\<close> on strings.\<close>

fun startswith :: "string \<Rightarrow> string \<Rightarrow> bool" where
  "startswith s [] = True"
| "startswith [] (p # ps) = False"
| "startswith (c # cs) (p # ps) = (c = p \<and> startswith cs ps)"

definition endswith :: "string \<Rightarrow> string \<Rightarrow> bool" where
  "endswith s p = startswith (rev s) (rev p)"

fun py_in :: "string \<Rightarrow> string \<Rightarrow> bool" where
  "py_in sub [] = (sub = [])"
| "py_in sub (c # cs) = (startswith (c # cs) sub \<or> py_in sub cs)"

text \<open>
  \<open>str.lower()\<close> on code points below 256: A-Z and the capital letters of
  U+00C0..U+00DE (the multiplication sign U+00D7 apart) move up by 32.
\<close>

definition lower_char :: "char \<Rightarrow> char" where
  "lower_char c =
     (let n = (of_char c :: nat)
      in if (65 \<le> n \<and> n \<le> 90) \<or> (192 \<le> n \<and> n \<le> 222 \<and> n \<noteq> 215)
         then char_of (n + 32) else c)"

definition lower :: "string \<Rightarrow> string" where
  "lower s = map lower_char s"

text \<open>\<open>str.encode()\<close>: UTF-8, one byte below 128 and two bytes from 128 to 255.\<close>

definition encode_char :: "char \<Rightarrow> 8 word list" where
  "encode_char c =
     (let n = (of_char c :: nat)
      in if n < 128 then [of_nat n]
         else [of_nat (192 + n div 64), of_nat (128 + n mod 64)])"

definition encode :: "string \<Rightarrow> 8 word list" where
  "encode s = concat (map encode_char s)"

text \<open>
  \<open>hexdigest()\<close> of a 16-byte digest: 32 lowercase hexadecimal digits, most
  significant nibble of the first byte first. The digest itself comes from
  \<open>hashlib.md5\<close>, which is not part of the repository: it is a parameter of the
  model, a function from the encoded bytes to a 128-bit value.
\<close>

definition hex_chars :: string where
  "hex_chars = ''0123456789abcdef''"

definition hex_digit :: "nat \<Rightarrow> char" where
  "hex_digit n = hex_chars ! (n mod 16)"

definition hexdigest :: "128 word \<Rightarrow> string" where
  "hexdigest w = map (\<lambda>i. hex_digit (unat (drop_bit (4 * (31 - i)) w))) [0..<32]"

section \<open>Cache key (lines 41-42)\<close>

definition get_cache_key :: "(8 word list \<Rightarrow> 128 word) \<Rightarrow> string \<Rightarrow> string" where
  "get_cache_key md5 query = hexdigest (md5 (encode (lower query)))"

text \<open>A stand-in digest used only to evaluate the model on concrete inputs.\<close>

definition sum_digest :: "8 word list \<Rightarrow> 128 word" where
  "sum_digest bs = of_nat (sum_list (map unat bs))"

section \<open>Collaborators and state\<close>

text \<open>
  A dictionary value read by the program is either \<open>None\<close> or a string; any other
  non-string value behaves like \<open>None\<close> in the two places that read one
  (\<open>!= 'none'\<close> holds and \<open>'opus' in v\<close> raises TypeError). A missing key is the
  outer \<open>None\<close> of the option.
\<close>

datatype pyval = PyNone | PyStr string

record format =
  f_acodec :: "pyval option"
  f_url :: "string option"

record info =
  i_formats :: "format list option"
  i_url :: "string option"

record search_result =
  sr_video_id :: "string option"
  sr_title :: "string option"

record video =
  v_url :: "string option"
  v_title :: "string option"

text \<open>
  What a cache file holds when it is opened and unpickled: the dictionary written
  by \<open>cached_search\<close>, or anything on which \<open>open\<close>, \<open>pickle.load\<close> or the two
  field reads raise.
\<close>

datatype cache_file = Unreadable | Pickled real "search_result list"

text \<open>
  The cache directory: the entries of \<open>./yt_cache\<close> by base name, in the order
  \<open>os.listdir\<close> gives them.
\<close>

type_synonym cache_dir = "(string \<times> cache_file) list"

text \<open>
  Writing a cache file: \<open>open(cache_file, 'wb')\<close> may raise (the directory is left
  as it was), or \<open>pickle.dump\<close> may raise after the file was truncated.
\<close>

datatype write_outcome = WriteOk | OpenFails | DumpFails

text \<open>
  The answers of the outside world during one resolution: the digest function, the
  two readings of \<open>time.time()\<close> inside \<open>cached_search\<close> (line 54 and line 66),
  \<open>yt_search.search\<close>, the file write, \<open>YoutubeDL.extract_info\<close> on a video URL
  (line 110) and on a search query (line 141, with \<open>default_search = ytsearch1\<close>;
  the result holds the value of \<open>info["entries"]\<close> when the key is present), the
  same call when the interactive loop retries it (line 254), and whether
  \<open>os.remove\<close> succeeds on a cache file.
\<close>

record env =
  hashlib_md5 :: "8 word list \<Rightarrow> 128 word"
  now_check :: real
  now_store :: real
  yt_search :: "string \<Rightarrow> nat \<Rightarrow> error + search_result list"
  open_wb :: "string \<Rightarrow> write_outcome"
  extract_video :: "string \<Rightarrow> error + info"
  extract_first :: "string \<Rightarrow> error + video list option"
  extract_retry :: "string \<Rightarrow> error + video list option"
  os_remove :: "string \<Rightarrow> bool"

section \<open>Extraction of the audio URL (lines 94-126)\<close>

text \<open>\<open>f.get('acodec') != 'none'\<close>\<close>

definition audio_capable :: "format \<Rightarrow> bool" where
  "audio_capable f = (f_acodec f \<noteq> Some (PyStr ''none''))"

text \<open>
  The loop of lines 116-118: \<open>None\<close> when it runs to its end, the URL of the first
  format whose codec contains "opus" otherwise; \<open>'opus' in None\<close> raises
  TypeError and \<open>f['url']\<close> raises KeyError when the key is missing.
\<close>

fun opus_loop :: "format list \<Rightarrow> error + string option" where
  "opus_loop [] = Inr None"
| "opus_loop (f # fs) =
     (case (case f_acodec f of None \<Rightarrow> PyStr [] | Some v \<Rightarrow> v) of
        PyNone \<Rightarrow> Inl TypeError
      | PyStr codec \<Rightarrow>
          if py_in ''opus'' codec
          then (case f_url f of None \<Rightarrow> Inl (KeyError ''url'') | Some u \<Rightarrow> Inr (Some u))
          else opus_loop fs)"

text \<open>The f-string \<open>f"https://youtu.be/{video_id}"\<close> of lines 110 and 126.\<close>

definition watch_url :: "string \<Rightarrow> string" where
  "watch_url video_id = ''https://youtu.be/'' @ video_id"

text \<open>\<open>info.get('formats', [])\<close>\<close>

definition get_formats :: "info \<Rightarrow> format list" where
  "get_formats info = (case i_formats info of None \<Rightarrow> [] | Some fs \<Rightarrow> fs)"

text \<open>The body of the \<open>try\<close> (lines 109-124).\<close>

definition extract_body :: "env \<Rightarrow> string \<Rightarrow> error + string" where
  "extract_body e video_id =
     (case extract_video e (watch_url video_id) of
        Inl err \<Rightarrow> Inl err
      | Inr info \<Rightarrow>
          (let formats = get_formats info;
               audio_formats = filter audio_capable formats
           in case opus_loop audio_formats of
                Inl err \<Rightarrow> Inl err
              | Inr (Some u) \<Rightarrow> Inr u
              | Inr None \<Rightarrow>
                  (case audio_formats of
                     f # _ \<Rightarrow>
                       (case f_url f of None \<Rightarrow> Inl (KeyError ''url'') | Some u \<Rightarrow> Inr u)
                   | [] \<Rightarrow>
                       (case i_url info of None \<Rightarrow> Inl (KeyError ''url'') | Some u \<Rightarrow> Inr u))))"

text \<open>
  The function: whatever the body raises is caught by the bare \<open>except\<close> of line
  125, which returns the watch-page URL. The result is a sum so that it composes
  with the callers; the function itself never raises.
\<close>

definition extract_audio_url_async :: "env \<Rightarrow> string \<Rightarrow> error + string" where
  "extract_audio_url_async e video_id =
     (case extract_body e video_id of
        Inl err \<Rightarrow> Inr (watch_url video_id)
      | Inr u \<Rightarrow> Inr u)"

text \<open>
  The selection policy in the specification's words, on the collaborator's
  formats and optional top-level URL: first format with "opus" in the codec among
  the audio-capable ones, else the first audio-capable one, else the top-level
  URL, else the error ExtractionFailed (\<open>None\<close> here).
\<close>

definition string_codec :: "format \<Rightarrow> bool" where
  "string_codec f = (f_acodec f \<noteq> Some PyNone)"

definition codec_has_opus :: "format \<Rightarrow> bool" where
  "codec_has_opus f = (case f_acodec f of Some (PyStr c) \<Rightarrow> py_in ''opus'' c | _ \<Rightarrow> False)"

definition spec_select :: "format list \<Rightarrow> string option \<Rightarrow> string option" where
  "spec_select formats top_url =
     (let audio = filter audio_capable formats
      in case find codec_has_opus audio of
           Some f \<Rightarrow> f_url f
         | None \<Rightarrow> (case audio of f # _ \<Rightarrow> f_url f | [] \<Rightarrow> top_url))"

section \<open>Cached search (lines 44-75)\<close>

text \<open>The base name of the cache file of line 47.\<close>

definition cache_file_name :: "string \<Rightarrow> string" where
  "cache_file_name cache_key = ''search_'' @ cache_key @ ''.pkl''"

text \<open>
  Lines 50-57, the read branch: \<open>Some results\<close> when line 55 returns, \<open>None\<close> when
  control falls through to line 59 (no file, an exception swallowed by the bare
  \<open>except\<close>, or an entry that is too old).
\<close>

definition read_cache :: "real \<Rightarrow> cache_dir \<Rightarrow> string \<Rightarrow> search_result list option" where
  "read_cache now files cache_file =
     (case map_of files cache_file of
        None \<Rightarrow> None
      | Some Unreadable \<Rightarrow> None
      | Some (Pickled timestamp results) \<Rightarrow>
          if now - timestamp < 3600 then Some results else None)"

text \<open>
  Lines 60-75: the live search and the write of its result, both inside one
  \<open>try\<close> whose bare \<open>except\<close> returns \<open>None\<close>.
\<close>

definition fresh_search ::
  "env \<Rightarrow> cache_dir \<Rightarrow> string \<Rightarrow> string \<Rightarrow> nat \<Rightarrow> search_result list option \<times> cache_dir" where
  "fresh_search e files cache_file query max_results =
     (case yt_search e query max_results of
        Inl err \<Rightarrow> (None, files)
      | Inr results \<Rightarrow>
          (case open_wb e cache_file of
             WriteOk \<Rightarrow>
               (Some results,
                AList.update cache_file (Pickled (now_store e) results) files)
           | OpenFails \<Rightarrow> (None, files)
           | DumpFails \<Rightarrow> (None, AList.update cache_file Unreadable files)))"

definition cached_search ::
  "env \<Rightarrow> cache_dir \<Rightarrow> string \<Rightarrow> nat \<Rightarrow> search_result list option \<times> cache_dir" where
  "cached_search e files query max_results =
     (let cache_key = get_cache_key (hashlib_md5 e) query;
          cache_file = cache_file_name cache_key
      in case read_cache (now_check e) files cache_file of
           Some results \<Rightarrow> (Some results, files)
         | None \<Rightarrow> fresh_search e files cache_file query max_results)"

section \<open>The two resolvers (lines 77-92 and 129-143)\<close>

text \<open>
  \<open>youtube_search_first_original\<close>, given the answer of \<open>extract_info\<close>:
  \<open>info["entries"][0]\<close>, then \<open>video["url"]\<close>, then \<open>video["title"]\<close>.
\<close>

definition youtube_search_first_original ::
  "(string \<Rightarrow> error + video list option) \<Rightarrow> string \<Rightarrow> error + string \<times> string" where
  "youtube_search_first_original extract_info query =
     (case extract_info query of
        Inl err \<Rightarrow> Inl err
      | Inr None \<Rightarrow> Inl (KeyError ''entries'')
      | Inr (Some []) \<Rightarrow> Inl IndexError
      | Inr (Some (video # _)) \<Rightarrow>
          (case v_url video of
             None \<Rightarrow> Inl (KeyError ''url'')
           | Some u \<Rightarrow>
               (case v_title video of
                  None \<Rightarrow> Inl (KeyError ''title'')
                | Some t \<Rightarrow> Inr (u, t))))"

text \<open>
  \<open>youtube_search_first_fast\<close>: \<open>if search_results:\<close> holds for a non-empty list;
  \<open>None\<close> and the empty list go to the original resolver. The call of line 88 is
  an ordinary call: its value is the first component of the returned pair.
\<close>

definition youtube_search_first_fast ::
  "env \<Rightarrow> cache_dir \<Rightarrow> string \<Rightarrow> (error + string \<times> string) \<times> cache_dir" where
  "youtube_search_first_fast e files query =
     (let (search_results, files') = cached_search e files query 3
      in case search_results of
           Some (r # rs) \<Rightarrow>
             (case sr_video_id r of
                None \<Rightarrow> (Inl (KeyError ''video_id''), files')
              | Some video_id \<Rightarrow>
                  (case sr_title r of
                     None \<Rightarrow> (Inl (KeyError ''title''), files')
                   | Some title \<Rightarrow>
                       (case extract_audio_url_async e video_id of
                          Inl err \<Rightarrow> (Inl err, files')
                        | Inr audio_url \<Rightarrow> (Inr (audio_url, title), files'))))
         | _ \<Rightarrow> (youtube_search_first_original (extract_first e) query, files'))"

section \<open>Player, output and the commands (lines 145-258)\<close>

datatype player_cmd = Loadfile string | Stop

text \<open>
  What the program prints, one constructor per \<open>print\<close> call (the texts hold
  symbols outside ASCII and a formatted float, so they are named, not spelled).
\<close>

datatype message =
    Playing string
  | PlayingFallback string
  | VolumeSet int
  | VolumeUsage
  | FastMode bool
  | CacheCleared
  | HelpText
  | Paused
  | Resumed
  | Stopped
  | UnknownCommand
  | ErrorMessage error
  | TryAnother

text \<open>
  The mutable state: the cache directory, the mpv player (its \<open>volume\<close> and
  \<open>pause\<close> properties, the commands sent to it, whether \<open>terminate\<close> was called),
  the lines printed so far and the loop's \<open>fast_mode\<close> variable. Later entries of
  the two lists are more recent.
\<close>

record world =
  files :: cache_dir
  volume :: int
  pause :: bool
  commands :: "player_cmd list"
  terminated :: bool
  printed :: "message list"
  fast_mode :: bool

text \<open>
  \<open>play_youtube\<close> (lines 145-167), up to the \<open>loadfile\<close> command. The status
  thread of lines 162-167 only prints the duration later and is left out.
\<close>

definition play_youtube :: "env \<Rightarrow> world \<Rightarrow> string \<Rightarrow> bool \<Rightarrow> error option \<times> world" where
  "play_youtube e w query use_cache =
     (let (r, files') =
            (if use_cache then youtube_search_first_fast e (files w) query
             else (youtube_search_first_original (extract_first e) query, files w))
      in case r of
           Inl err \<Rightarrow> (Some err, w\<lparr>files := files'\<rparr>)
         | Inr (url, title) \<Rightarrow>
             (None, w\<lparr>files := files',
                      printed := printed w @ [Playing title],
                      commands := commands w @ [Loadfile url]\<rparr>))"

text \<open>
  \<open>clear_cache\<close> (lines 169-174): the loop over the listing taken at line 171;
  \<open>os.remove\<close> raising ends it with the files removed so far gone.
\<close>

fun clear_loop :: "(string \<Rightarrow> bool) \<Rightarrow> string list \<Rightarrow> cache_dir \<Rightarrow> error option \<times> cache_dir" where
  "clear_loop rm [] fs = (None, fs)"
| "clear_loop rm (file # rest) fs =
     (if endswith file ''.pkl''
      then (if rm file then clear_loop rm rest (AList.delete file fs)
            else (Some OSError, fs))
      else clear_loop rm rest fs)"

definition clear_cache :: "env \<Rightarrow> world \<Rightarrow> error option \<times> world" where
  "clear_cache e w =
     (case clear_loop (os_remove e) (map fst (files w)) (files w) of
        (Some err, files') \<Rightarrow> (Some err, w\<lparr>files := files'\<rparr>)
      | (None, files') \<Rightarrow>
          (None, w\<lparr>files := files', printed := printed w @ [CacheCleared]\<rparr>))"

section \<open>The interactive loop (lines 194-258)\<close>

text \<open>
  \<open>str.split()\<close> with no argument: the maximal runs of non-whitespace characters.
  Whitespace below 256 is 9-13, 28-32, 133 and 160.
\<close>

definition isspace :: "char \<Rightarrow> bool" where
  "isspace c =
     (let n = (of_char c :: nat)
      in (9 \<le> n \<and> n \<le> 13) \<or> (28 \<le> n \<and> n \<le> 32) \<or> n = 133 \<or> n = 160)"

fun split_from :: "string \<Rightarrow> string \<Rightarrow> string list" where
  "split_from cur [] = (if cur = [] then [] else [cur])"
| "split_from cur (c # cs) =
     (if isspace c
      then (if cur = [] then split_from [] cs else cur # split_from [] cs)
      else split_from (cur @ [c]) cs)"

definition split :: "string \<Rightarrow> string list" where
  "split s = split_from [] s"

text \<open>
  \<open>int(s)\<close> on a string without whitespace: an optional sign, then decimal
  digits, single underscores allowed between digits, at most 4300 digits (the
  default limit of \<open>sys.set_int_max_str_digits\<close>); \<open>None\<close> is ValueError.
\<close>

definition is_digit :: "char \<Rightarrow> bool" where
  "is_digit c = (let n = (of_char c :: nat) in 48 \<le> n \<and> n \<le> 57)"

fun digits_value :: "int \<Rightarrow> string \<Rightarrow> int option" where
  "digits_value acc [] = Some acc"
| "digits_value acc (c # cs) =
     (if is_digit c then digits_value (10 * acc + (int (of_char c) - 48)) cs
      else if c = CHR ''_'' then
        (case cs of
           [] \<Rightarrow> None
         | d # _ \<Rightarrow> if is_digit d then digits_value acc cs else None)
      else None)"

definition unsigned_int :: "string \<Rightarrow> int option" where
  "unsigned_int s =
     (case s of
        [] \<Rightarrow> None
      | c # _ \<Rightarrow>
          if is_digit c \<and> length (filter is_digit s) \<le> 4300 then digits_value 0 s
          else None)"

definition py_int :: "string \<Rightarrow> int option" where
  "py_int s =
     (case s of
        [] \<Rightarrow> None
      | c # cs \<Rightarrow>
          if c = CHR ''-'' then map_option uminus (unsigned_int cs)
          else if c = CHR ''+'' then unsigned_int cs
          else unsigned_int s)"

text \<open>
  The \<open>/volume\<close> branch (lines 220-227): \<open>cmd.split()[1]\<close> raising IndexError and
  \<open>int\<close> raising ValueError both reach the \<open>except\<close> that prints the usage line;
  an integer outside 0..100 leaves the \<open>if\<close> of line 223 with nothing done.
\<close>

definition volume_command :: "world \<Rightarrow> string \<Rightarrow> world" where
  "volume_command w cmd =
     (case split cmd of
        _ # tok # _ \<Rightarrow>
          (case py_int tok of
             None \<Rightarrow> w\<lparr>printed := printed w @ [VolumeUsage]\<rparr>
           | Some vol \<Rightarrow>
               if 0 \<le> vol \<and> vol \<le> 100
               then w\<lparr>volume := vol, printed := printed w @ [VolumeSet vol]\<rparr>
               else w)
      | _ \<Rightarrow> w\<lparr>printed := printed w @ [VolumeUsage]\<rparr>)"

text \<open>
  The body of the \<open>try\<close> of line 195, on the stripped line \<open>q\<close>: the exception that
  leaves it (if any), whether the loop goes on (\<open>False\<close> after \<open>break\<close>), and the
  state.
\<close>

definition try_body :: "env \<Rightarrow> world \<Rightarrow> string \<Rightarrow> error option \<times> bool \<times> world" where
  "try_body e w q =
     (if q = [] then (None, True, w)
      else if startswith q ''/'' then
        (let cmd = lower q
         in if cmd = ''/exit'' \<or> cmd = ''/quit'' then (None, False, w\<lparr>terminated := True\<rparr>)
            else if cmd = ''/help'' then (None, True, w\<lparr>printed := printed w @ [HelpText]\<rparr>)
            else if cmd = ''/cache'' then
              (case clear_cache e w of (err, w') \<Rightarrow> (err, True, w'))
            else if cmd = ''/fast'' then
              (None, True, w\<lparr>fast_mode := \<not> fast_mode w,
                             printed := printed w @ [FastMode (\<not> fast_mode w)]\<rparr>)
            else if startswith cmd ''/volume '' then (None, True, volume_command w cmd)
            else if cmd = ''/pause'' then
              (None, True, w\<lparr>pause := \<not> pause w,
                             printed := printed w @ [if pause w then Resumed else Paused]\<rparr>)
            else if cmd = ''/stop'' then
              (None, True, w\<lparr>commands := commands w @ [Stop],
                             printed := printed w @ [Stopped]\<rparr>)
            else (None, True, w\<lparr>printed := printed w @ [UnknownCommand]\<rparr>))
      else (case play_youtube e w q (fast_mode w) of (err, w') \<Rightarrow> (err, True, w')))"

text \<open>
  One pass of \<open>while True\<close>: the \<open>try\<close> body, and for an exception the handler of
  lines 250-258, which prints it and retries with the original resolver.
\<close>

definition loop_iteration :: "env \<Rightarrow> world \<Rightarrow> string \<Rightarrow> bool \<times> world" where
  "loop_iteration e w q =
     (case try_body e w q of
        (None, continue, w') \<Rightarrow> (continue, w')
      | (Some err, _, w') \<Rightarrow>
          (let w1 = w'\<lparr>printed := printed w' @ [ErrorMessage err]\<rparr>
           in case youtube_search_first_original (extract_retry e) q of
                Inl _ \<Rightarrow> (True, w1\<lparr>printed := printed w1 @ [TryAnother]\<rparr>)
              | Inr (url, title) \<Rightarrow>
                  (True, w1\<lparr>commands := commands w1 @ [Loadfile url],
                           printed := printed w1 @ [PlayingFallback title]\<rparr>)))"

section \<open>The module's top level (lines 1-38 and 188)\<close>

text \<open>
  Loading the module runs its top-level statements in order. A statement is an
  import (the module and the names it binds), a \<open>def\<close> (it binds its name; the
  body is not run), the \<open>__main__\<close> guard of line 188, or any other statement
  with its line, the global names it looks up in evaluation order and the names
  it binds. A name is looked up in the module's globals, then in the builtins;
  \<open>True\<close>, \<open>False\<close> and \<open>None\<close> are keywords, not names.
\<close>

datatype stmt =
    Import string "string list"
  | Exec nat "string list" "string list"
  | Def string
  | MainGuard

definition builtins :: "string list" where
  "builtins =
     [''abs'', ''all'', ''any'', ''ascii'', ''bin'', ''bool'', ''breakpoint'', ''bytearray'',
      ''bytes'', ''callable'', ''chr'', ''classmethod'', ''compile'', ''complex'',
      ''delattr'', ''dict'', ''dir'', ''divmod'', ''enumerate'', ''eval'', ''exec'',
      ''filter'', ''float'', ''format'', ''frozenset'', ''getattr'', ''globals'',
      ''hasattr'', ''hash'', ''help'', ''hex'', ''id'', ''input'', ''int'', ''isinstance'',
      ''issubclass'', ''iter'', ''len'', ''list'', ''locals'', ''map'', ''max'',
      ''memoryview'', ''min'', ''next'', ''object'', ''oct'', ''open'', ''ord'', ''pow'',
      ''print'', ''property'', ''range'', ''repr'', ''reversed'', ''round'', ''set'',
      ''setattr'', ''slice'', ''sorted'', ''staticmethod'', ''str'', ''sum'', ''super'',
      ''tuple'', ''type'', ''vars'', ''zip'', ''__import__'', ''Exception'',
      ''KeyboardInterrupt'', ''exit'', ''quit'', ''copyright'', ''credits'', ''license'']"

text \<open>The globals a module starts with.\<close>

definition initial_globals :: "string list" where
  "initial_globals = [''__name__'', ''__doc__'', ''__package__'', ''__loader__'',
                      ''__spec__'', ''__file__'', ''__builtins__'']"

text \<open>
  The statements of tt_media_player.py. Line 9 reads \<open>os\<close> and \<open>__file__\<close>; line
  23 evaluates \<open>MPV\<close> and then the keyword arguments in order, of which only
  \<open>cache=yes\<close> looks a name up.
\<close>

definition tt_media_player :: "stmt list" where
  "tt_media_player =
     [Import ''os'' [''os''],
      Import ''hashlib'' [''hashlib''],
      Import ''pickle'' [''pickle''],
      Import ''threading'' [''threading''],
      Import ''concurrent.futures'' [''ThreadPoolExecutor''],
      Import ''time'' [''time''],
      Exec 9 [''os'', ''__file__'', ''os'', ''os'', ''os''] [],
      Import ''mpv'' [''MPV''],
      Import ''yt_dlp'' [''yt_dlp''],
      Import ''yt_search'' [''search''],
      Import ''warnings'' [''warnings''],
      Exec 16 [''warnings''] [],
      Exec 19 [] [''CACHE_DIR''],
      Exec 20 [''os'', ''CACHE_DIR''] [],
      Exec 23 [''MPV'', ''yes''] [''player''],
      Exec 38 [''ThreadPoolExecutor''] [''executor''],
      Def ''get_cache_key'',
      Def ''cached_search'',
      Def ''youtube_search_first_fast'',
      Def ''extract_audio_url_async'',
      Def ''youtube_search_first_original'',
      Def ''play_youtube'',
      Def ''clear_cache'',
      Def ''show_help'',
      MainGuard]"

text \<open>
  Running the statements from a list of globals. \<open>importable\<close> says which modules
  can be imported; \<open>runtime_error\<close> gives the exception a statement raises after
  its names were resolved (\<open>None\<close>: it runs to its end). The result is the
  exception that ends the load (if any), the globals bound by then, and whether
  the interactive loop under the \<open>__main__\<close> guard was entered.
\<close>

fun run_module ::
  "(string \<Rightarrow> bool) \<Rightarrow> (nat \<Rightarrow> error option) \<Rightarrow> stmt list \<Rightarrow> string list
     \<Rightarrow> error option \<times> string list \<times> bool" where
  "run_module importable runtime_error [] globals = (None, globals, False)"
| "run_module importable runtime_error (Import m names # rest) globals =
     (if importable m then run_module importable runtime_error rest (globals @ names)
      else (Some (ImportError m), globals, False))"
| "run_module importable runtime_error (Exec line reads binds # rest) globals =
     (case find (\<lambda>n. n \<notin> set globals \<and> n \<notin> set builtins) reads of
        Some n \<Rightarrow> (Some (NameError n), globals, False)
      | None \<Rightarrow>
          (case runtime_error line of
             Some err \<Rightarrow> (Some err, globals, False)
           | None \<Rightarrow> run_module importable runtime_error rest (globals @ binds)))"
| "run_module importable runtime_error (Def name # rest) globals =
     run_module importable runtime_error rest (globals @ [name])"
| "run_module importable runtime_error (MainGuard # rest) globals =
     (None, globals, True)"

text \<open>The modules the import statements name.\<close>

definition imported_modules :: "string list" where
  "imported_modules = [''os'', ''hashlib'', ''pickle'', ''threading'', ''concurrent.futures'',
                       ''time'', ''mpv'', ''yt_dlp'', ''yt_search'', ''warnings'']"

definition load_module ::
  "(string \<Rightarrow> bool) \<Rightarrow> (nat \<Rightarrow> error option) \<Rightarrow> error option \<times> string list \<times> bool" where
  "load_module importable runtime_error =
     run_module importable runtime_error tt_media_player initial_globals"

section \<open>Sample inputs\<close>

text \<open>An outside world in which every collaborator fails and every write succeeds.\<close>

definition env0 :: env where
  "env0 = \<lparr>hashlib_md5 = sum_digest, now_check = 0, now_store = 0,
            yt_search = (\<lambda>q n. Inl SearchError), open_wb = (\<lambda>name. WriteOk),
            extract_video = (\<lambda>u. Inl DownloadError),
            extract_first = (\<lambda>q. Inl DownloadError),
            extract_retry = (\<lambda>q. Inl DownloadError),
            os_remove = (\<lambda>name. True)\<rparr>"

definition fmt :: "string \<Rightarrow> string \<Rightarrow> format" where
  "fmt codec u = \<lparr>f_acodec = Some (PyStr codec), f_url = Some u\<rparr>"

definition env_formats :: "format list \<Rightarrow> string option \<Rightarrow> env" where
  "env_formats fs top_url =
     env0\<lparr>extract_video := (\<lambda>u. Inr \<lparr>i_formats = Some fs, i_url = top_url\<rparr>)\<rparr>"

definition song :: search_result where
  "song = \<lparr>sr_video_id = Some ''abc'', sr_title = Some ''Song''\<rparr>"

definition world0 :: world where
  "world0 = \<lparr>files = [], volume = 60, pause = False, commands = [], terminated = False,
             printed = [], fast_mode = True\<rparr>"

definition lofi_file :: string where
  "lofi_file = cache_file_name (get_cache_key sum_digest ''lofi'')"

text \<open>A world in which the live search finds the song and stores it at time 5001.\<close>

definition env_search :: env where
  "env_search = env0\<lparr>yt_search := (\<lambda>q n. Inr [song]), now_check := 5000, now_store := 5001\<rparr>"

text \<open>
  A world in which search and both resolvers answer: the live search finds the
  song, the extraction collaborator offers one opus format at URL A, and the
  direct resolver finds another video at URL B.
\<close>

definition env_all :: env where
  "env_all = env0\<lparr>yt_search := (\<lambda>q n. Inr [song]),
                  extract_video := (\<lambda>u. Inr \<lparr>i_formats = Some [fmt ''opus'' ''A''], i_url = None\<rparr>),
                  extract_first := (\<lambda>q. Inr (Some [\<lparr>v_url = Some ''B'', v_title = Some ''Other''\<rparr>]))\<rparr>"

section \<open>Properties\<close>

lemma length_hexdigest: "length (hexdigest w) = 32"
  by (simp add: hexdigest_def)

lemma hex_digit_in: "hex_digit n \<in> set hex_chars"
  unfolding hex_digit_def by (rule nth_mem) (simp add: hex_chars_def)

lemma hexdigest_chars: "set (hexdigest w) \<subseteq> set hex_chars"
  unfolding hexdigest_def using hex_digit_in by auto

lemma hex_chars_distinct: "distinct hex_chars"
  by (simp add: hex_chars_def)

lemma hex_digit_eq: "hex_digit a = hex_digit b \<Longrightarrow> a mod 16 = b mod 16"
proof -
  assume h: "hex_digit a = hex_digit b"
  have la: "a mod 16 < length hex_chars" and lb: "b mod 16 < length hex_chars"
    by (simp_all add: hex_chars_def)
  from h have "hex_chars ! (a mod 16) = hex_chars ! (b mod 16)"
    by (simp add: hex_digit_def)
  with hex_chars_distinct la lb show ?thesis
    by (simp add: nth_eq_iff_index_eq)
qed

lemma nibble_bits:
  fixes x y :: "128 word"
  assumes "unat x mod 16 = unat y mod 16" and "j < 4"
  shows "bit x j = bit y j"
proof -
  from assms(1) have "take_bit 4 (unat x) = take_bit 4 (unat y)"
    by (simp add: take_bit_eq_mod)
  then have "bit (take_bit 4 (unat x)) j = bit (take_bit 4 (unat y)) j"
    by simp
  with assms(2) have "bit (unat x) j = bit (unat y) j"
    by (simp add: bit_take_bit_iff)
  then show ?thesis
    by (simp add: bit_unsigned_iff)
qed

lemma hexdigest_inj: "hexdigest w = hexdigest w' \<Longrightarrow> w = w'"
proof (rule bit_word_eqI)
  fix m
  assume eq: "hexdigest w = hexdigest w'" and m: "m < LENGTH(128)"
  let ?i = "31 - m div 4"
  from m have i: "?i \<in> set [0..<32]" and k: "4 * (31 - ?i) = 4 * (m div 4)"
    by auto
  from eq have "\<forall>i \<in> set [0..<32].
      hex_digit (unat (drop_bit (4 * (31 - i)) w)) = hex_digit (unat (drop_bit (4 * (31 - i)) w'))"
    unfolding hexdigest_def by (simp only: map_eq_conv)
  with i have "hex_digit (unat (drop_bit (4 * (31 - ?i)) w))
             = hex_digit (unat (drop_bit (4 * (31 - ?i)) w'))"
    by blast
  then have "unat (drop_bit (4 * (m div 4)) w) mod 16 = unat (drop_bit (4 * (m div 4)) w') mod 16"
    unfolding k by (rule hex_digit_eq)
  then have "bit (drop_bit (4 * (m div 4)) w) (m mod 4) = bit (drop_bit (4 * (m div 4)) w') (m mod 4)"
    by (rule nibble_bits) simp
  then show "bit w m = bit w' m"
    by (simp add: bit_drop_bit_eq)
qed

lemma get_cache_key_eq_iff:
  "(get_cache_key md5 q1 = get_cache_key md5 q2)
     = (md5 (encode (lower q1)) = md5 (encode (lower q2)))"
  unfolding get_cache_key_def by (auto dest: hexdigest_inj)

lemma byte_of_nat_eq:
  "a < 256 \<Longrightarrow> b < 256 \<Longrightarrow> ((of_nat a :: 8 word) = of_nat b) = (a = b)"
  by (simp add: word_of_nat_eq_iff take_bit_eq_mod)

lemma of_char_less: "(of_char c :: nat) < 256"
  by (cases c) (simp add: of_char_def)

lemma hi_byte: "k < 256 \<Longrightarrow> 192 + k div 64 < (256::nat)"
  by (simp add: div_less_iff_less_mult)

lemma div_mod_eq: "(n::nat) div 64 = m div 64 \<Longrightarrow> n mod 64 = m mod 64 \<Longrightarrow> n = m"
  by (metis div_mult_mod_eq)

lemma encode_char_append_eq:
  assumes eq: "encode_char c @ xs = encode_char d @ ys"
  shows "c = d \<and> xs = ys"
proof -
  let ?n = "of_char c :: nat" and ?m = "of_char d :: nat"
  have n: "?n < 256" and m: "?m < 256" by (rule of_char_less)+
  define a where "a = (if ?n < 128 then ?n else 192 + ?n div 64)"
  define b where "b = 128 + ?n mod 64"
  define a' where "a' = (if ?m < 128 then ?m else 192 + ?m div 64)"
  define b' where "b' = 128 + ?m mod 64"
  from n m have a: "a < 256" and b: "b < 256" and a': "a' < 256" and b': "b' < 256"
    by (simp_all add: a_def b_def a'_def b'_def hi_byte)
  have c1: "?n < 128 \<longrightarrow> a = ?n \<and> encode_char c = [of_nat a]"
    by (simp add: encode_char_def a_def)
  have c2: "\<not> ?n < 128 \<longrightarrow> a = 192 + ?n div 64 \<and> b = 128 + ?n mod 64
               \<and> encode_char c = [of_nat a, of_nat b]"
    by (simp add: encode_char_def Let_def a_def b_def)
  have d1: "?m < 128 \<longrightarrow> a' = ?m \<and> encode_char d = [of_nat a']"
    by (simp add: encode_char_def a'_def)
  have d2: "\<not> ?m < 128 \<longrightarrow> a' = 192 + ?m div 64 \<and> b' = 128 + ?m mod 64
               \<and> encode_char d = [of_nat a', of_nat b']"
    by (simp add: encode_char_def Let_def a'_def b'_def)
  have first: "a = a'"
  proof -
    from c1 c2 obtain r where "encode_char c = of_nat a # r" by (cases "?n < 128") auto
    moreover from d1 d2 obtain r' where "encode_char d = of_nat a' # r'"
      by (cases "?m < 128") auto
    ultimately have "(of_nat a :: 8 word) = of_nat a'" using eq by simp
    with a a' show ?thesis by (simp only: byte_of_nat_eq)
  qed
  have "?n = ?m \<and> xs = ys"
  proof (cases "?n < 128")
    case n128: True
    with c1 have an: "a = ?n" and ec: "encode_char c = [of_nat a]" by auto
    show ?thesis
    proof (cases "?m < 128")
      case True
      with d1 have "a' = ?m" and "encode_char d = [of_nat a']" by auto
      with an ec first eq show ?thesis by simp
    next
      case False
      with d2 have "a' = 192 + ?m div 64" by auto
      with first an n128 show ?thesis by simp
    qed
  next
    case n128: False
    with c2 have an: "a = 192 + ?n div 64" and bn: "b = 128 + ?n mod 64"
      and ec: "encode_char c = [of_nat a, of_nat b]" by auto
    show ?thesis
    proof (cases "?m < 128")
      case True
      with d1 have "a' = ?m" by auto
      with first an True show ?thesis by simp
    next
      case False
      with d2 have am: "a' = 192 + ?m div 64" and bm: "b' = 128 + ?m mod 64"
        and ed: "encode_char d = [of_nat a', of_nat b']" by auto
      from eq ec ed have "(of_nat b :: 8 word) = of_nat b'" and r: "xs = ys"
        by simp_all
      with b b' have "b = b'" by (simp only: byte_of_nat_eq)
      with bn bm have "?n mod 64 = ?m mod 64" by simp
      moreover from first an am have "?n div 64 = ?m div 64" by simp
      ultimately have "?n = ?m" by (rule div_mod_eq [rotated])
      with r show ?thesis by simp
    qed
  qed
  then show ?thesis by simp
qed

lemma encode_char_nonempty: "encode_char c \<noteq> []"
  by (simp add: encode_char_def Let_def)

lemma encode_inj: "encode s = encode t \<Longrightarrow> s = t"
proof (induction s arbitrary: t)
  case Nil
  then show ?case
    by (cases t) (simp_all add: encode_def encode_char_nonempty)
next
  case (Cons c cs)
  show ?case
  proof (cases t)
    case Nil
    with Cons.prems show ?thesis
      by (simp add: encode_def encode_char_nonempty)
  next
    case (Cons d ds)
    with Cons.prems have "encode_char c @ encode cs = encode_char d @ encode ds"
      by (simp add: encode_def)
    then have "c = d \<and> encode cs = encode ds"
      by (rule encode_char_append_eq)
    with Cons.IH Cons show ?thesis by simp
  qed
qed

lemma encode_eq_iff: "(encode s = encode t) = (s = t)"
  using encode_inj by blast

text \<open>
  C8: two queries with the same lowercased text get the same cache key, whatever
  digest function \<open>md5\<close> is. The key is the digest of the normalized query and
  nothing else: two keys are equal exactly when \<open>md5\<close> gives equal digests on the
  UTF-8 encodings of the two lowercased queries, and two encodings are equal
  exactly when the lowercased queries are. The key is a function of the query
  alone (no state, no salt), and it is always 32 hexadecimal digits long.
\<close>

theorem cache_key_normalized:
  "(lower q1 = lower q2 \<longrightarrow> get_cache_key md5 q1 = get_cache_key md5 q2)
   \<and> (get_cache_key md5 q1 = get_cache_key md5 q2)
       = (md5 (encode (lower q1)) = md5 (encode (lower q2)))
   \<and> (encode (lower q1) = encode (lower q2)) = (lower q1 = lower q2)
   \<and> length (get_cache_key md5 q1) = 32
   \<and> set (get_cache_key md5 q1) \<subseteq> set hex_chars"
proof (intro conjI impI)
  assume "lower q1 = lower q2"
  then show "get_cache_key md5 q1 = get_cache_key md5 q2"
    by (simp add: get_cache_key_def)
next
  show "(get_cache_key md5 q1 = get_cache_key md5 q2)
       = (md5 (encode (lower q1)) = md5 (encode (lower q2)))"
    by (rule get_cache_key_eq_iff)
next
  show "(encode (lower q1) = encode (lower q2)) = (lower q1 = lower q2)"
    by (rule encode_eq_iff)
next
  show "length (get_cache_key md5 q1) = 32"
    by (simp add: get_cache_key_def length_hexdigest)
next
  show "set (get_cache_key md5 q1) \<subseteq> set hex_chars"
    by (simp add: get_cache_key_def hexdigest_chars)
qed

theorem cache_key_normalized_witness:
  "lower ''LoFi Beats'' = lower ''lofi beats''
   \<and> get_cache_key sum_digest ''LoFi Beats'' = get_cache_key sum_digest ''lofi beats''
   \<and> get_cache_key sum_digest ''LoFi Beats'' = ''000000000000000000000000000003d9''
   \<and> sum_digest (encode (lower ''lofi'')) \<noteq> sum_digest (encode (lower ''rock''))
   \<and> get_cache_key sum_digest ''lofi'' \<noteq> get_cache_key sum_digest ''rock''
   \<and> length (get_cache_key sum_digest ''LoFi Beats'') = 32"
proof -
  have h: "lower ''LoFi Beats'' = lower ''lofi beats''"
    by code_simp
  have v: "get_cache_key sum_digest ''LoFi Beats'' = ''000000000000000000000000000003d9''"
    by code_simp
  have d: "sum_digest (encode (lower ''lofi'')) \<noteq> sum_digest (encode (lower ''rock''))"
    by code_simp
  from cache_key_normalized [of "''LoFi Beats''" "''lofi beats''" sum_digest] h
  have e: "get_cache_key sum_digest ''LoFi Beats'' = get_cache_key sum_digest ''lofi beats''"
    and l: "length (get_cache_key sum_digest ''LoFi Beats'') = 32"
    by blast+
  from cache_key_normalized [of "''lofi''" "''rock''" sum_digest] d
  have n: "get_cache_key sum_digest ''lofi'' \<noteq> get_cache_key sum_digest ''rock''"
    by blast
  from h e v d n l show ?thesis by blast
qed

subsection \<open>Extraction\<close>

lemma opus_loop_find:
  "list_all string_codec fs \<Longrightarrow>
   opus_loop fs =
     (case find codec_has_opus fs of
        None \<Rightarrow> Inr None
      | Some f \<Rightarrow> (case f_url f of None \<Rightarrow> Inl (KeyError ''url'') | Some u \<Rightarrow> Inr (Some u)))"
proof (induction fs)
  case Nil
  then show ?case by simp
next
  case (Cons f fs)
  then have ih: "opus_loop fs =
     (case find codec_has_opus fs of
        None \<Rightarrow> Inr None
      | Some f \<Rightarrow> (case f_url f of None \<Rightarrow> Inl (KeyError ''url'') | Some u \<Rightarrow> Inr (Some u)))"
    by simp
  from Cons.prems have sc: "f_acodec f \<noteq> Some PyNone"
    by (simp add: string_codec_def)
  show ?case
  proof (cases "f_acodec f")
    case None
    then have "\<not> codec_has_opus f" by (simp add: codec_has_opus_def)
    then show ?thesis using None ih by simp
  next
    case (Some v)
    with sc obtain c where v: "v = PyStr c" by (cases v) auto
    have "codec_has_opus f = py_in ''opus'' c"
      using Some v by (simp add: codec_has_opus_def)
    then show ?thesis using Some v ih by simp
  qed
qed

lemma extract_body_select:
  assumes ok: "extract_video e (watch_url vid) = Inr info"
    and sc: "list_all string_codec (get_formats info)"
  shows "extract_body e vid =
     (case spec_select (get_formats info) (i_url info) of
        None \<Rightarrow> Inl (KeyError ''url'') | Some u \<Rightarrow> Inr u)"
proof -
  let ?audio = "filter audio_capable (get_formats info)"
  from sc have "list_all string_codec ?audio"
    by (simp add: list_all_iff)
  then have loop: "opus_loop ?audio =
     (case find codec_has_opus ?audio of
        None \<Rightarrow> Inr None
      | Some f \<Rightarrow> (case f_url f of None \<Rightarrow> Inl (KeyError ''url'') | Some u \<Rightarrow> Inr (Some u)))"
    by (rule opus_loop_find)
  show ?thesis
    unfolding extract_body_def spec_select_def Let_def
    by (simp add: ok loop split: option.splits list.splits)
qed

text \<open>
  C1 (amended): when the collaborator answers and no format carries a non-string
  codec, extraction returns what the selection policy picks (first audio-capable
  format with "opus" in its codec, else first audio-capable format, else the
  top-level URL); when the policy finds nothing, and when the collaborator
  raises, it returns the watch-page URL (\<open>https://youtu.be/\<close> followed by the
  video id). Whatever the collaborator answers, it signals no error.
\<close>

theorem extract_selection_policy:
  "isl (extract_audio_url_async e vid) = False
   \<and> (\<forall>err. extract_video e (watch_url vid) = Inl err \<longrightarrow>
      extract_audio_url_async e vid = Inr (watch_url vid))
   \<and> (\<forall>info. extract_video e (watch_url vid) = Inr info
          \<and> list_all string_codec (get_formats info) \<longrightarrow>
      extract_audio_url_async e vid =
        Inr (case spec_select (get_formats info) (i_url info) of
               Some u \<Rightarrow> u
             | None \<Rightarrow> watch_url vid))"
proof (intro conjI allI impI)
  show "isl (extract_audio_url_async e vid) = False"
    by (simp add: extract_audio_url_async_def split: sum.splits)
next
  fix err
  assume "extract_video e (watch_url vid) = Inl err"
  then show "extract_audio_url_async e vid = Inr (watch_url vid)"
    by (simp add: extract_audio_url_async_def extract_body_def)
next
  fix info
  assume "extract_video e (watch_url vid) = Inr info
          \<and> list_all string_codec (get_formats info)"
  then have "extract_body e vid =
     (case spec_select (get_formats info) (i_url info) of
        None \<Rightarrow> Inl (KeyError ''url'') | Some u \<Rightarrow> Inr u)"
    by (simp add: extract_body_select)
  then show "extract_audio_url_async e vid =
        Inr (case spec_select (get_formats info) (i_url info) of
               Some u \<Rightarrow> u
             | None \<Rightarrow> watch_url vid)"
    by (simp add: extract_audio_url_async_def split: option.splits)
qed

theorem extract_selection_policy_witness:
  "extract_video env0 (watch_url ''abc'') = Inl DownloadError
   \<and> extract_audio_url_async env0 ''abc'' = Inr ''https://youtu.be/abc''
   \<and> extract_video (env_formats [fmt ''mp4a.40.2'' ''B'', fmt ''opus'' ''A''] None) (watch_url ''abc'')
       = Inr \<lparr>i_formats = Some [fmt ''mp4a.40.2'' ''B'', fmt ''opus'' ''A''], i_url = None\<rparr>
   \<and> list_all string_codec [fmt ''mp4a.40.2'' ''B'', fmt ''opus'' ''A'']
   \<and> extract_audio_url_async (env_formats [fmt ''mp4a.40.2'' ''B'', fmt ''opus'' ''A''] None) ''abc''
       = Inr ''A''"
proof -
  let ?fs = "[fmt ''mp4a.40.2'' ''B'', fmt ''opus'' ''A'']"
  let ?info = "\<lparr>i_formats = Some ?fs, i_url = None\<rparr>"
  have a: "extract_video env0 (watch_url ''abc'') = Inl DownloadError"
    by (simp add: env0_def)
  have b: "extract_video (env_formats ?fs None) (watch_url ''abc'') = Inr ?info"
    by (simp add: env_formats_def env0_def)
  have c: "list_all string_codec (get_formats ?info)"
    by (simp add: get_formats_def string_codec_def fmt_def)
  have d: "spec_select (get_formats ?info) (i_url ?info) = Some ''A''"
    by (simp add: spec_select_def get_formats_def audio_capable_def codec_has_opus_def fmt_def)
  from extract_selection_policy [of env0 "''abc''"] a
  have r1: "extract_audio_url_async env0 ''abc'' = Inr (watch_url ''abc'')"
    by blast
  from extract_selection_policy [of "env_formats ?fs None" "''abc''"] b c
  have r2: "extract_audio_url_async (env_formats ?fs None) ''abc'' =
        Inr (case spec_select (get_formats ?info) (i_url ?info) of
               Some u \<Rightarrow> u | None \<Rightarrow> watch_url ''abc'')"
    by blast
  show ?thesis
    using a b c r1 r2 d by (simp add: watch_url_def get_formats_def)
qed

text \<open>
  C1 as stated fails on the last clause: with no format and no top-level URL the
  specification's policy finds nothing, yet the function returns the watch-page
  URL instead of signalling an error.
\<close>

theorem extract_no_format_counterexample:
  "spec_select [] None = None
   \<and> extract_audio_url_async (env_formats [] None) ''abc'' = Inr ''https://youtu.be/abc''
   \<and> \<not> isl (extract_audio_url_async (env_formats [] None) ''abc'')"
  by (simp add: spec_select_def extract_audio_url_async_def extract_body_def watch_url_def
      env_formats_def env0_def get_formats_def)

subsection \<open>Cache\<close>

text \<open>
  C3 (amended): the read branch returns the stored payload exactly when an entry
  is stored under the name, it can be read, and \<open>now - storedAt < 3600\<close>; in
  every other case, an entry exactly 3600 seconds old included, the lookup is a
  miss although the file is still in the directory.
\<close>

theorem read_cache_iff:
  "(read_cache now fs name = Some results) =
     (\<exists>timestamp. map_of fs name = Some (Pickled timestamp results)
        \<and> now - timestamp < 3600)"
  by (auto simp: read_cache_def split: option.splits cache_file.splits)

text \<open>
  C3 as stated fails at the boundary: an entry stored at 1000 and read at 4600
  satisfies \<open>now - storedAt \<le> 3600\<close>, and the lookup misses.
\<close>

theorem read_cache_boundary_counterexample:
  "map_of [(''search_0.pkl'', Pickled 1000 [song])] ''search_0.pkl'' = Some (Pickled 1000 [song])
   \<and> (4600::real) - 1000 \<le> 3600
   \<and> read_cache 4600 [(''search_0.pkl'', Pickled 1000 [song])] ''search_0.pkl'' = None"
  by (simp add: read_cache_def)

lemma fresh_search_Some:
  assumes "fresh_search e fs name q n = (Some v, fs')"
  shows "map_of fs' name = Some (Pickled (now_store e) v)"
  using assms
  by (auto simp: fresh_search_def update_conv' split: sum.splits write_outcome.splits)

text \<open>
  C7 (amended): when a call of \<open>cached_search\<close> that missed the cache (no entry,
  an unreadable one or an expired one under the key) returns a result, the entry
  it wrote replaces whatever was stored under the key, and a lookup of the same
  query strictly less than 3600 seconds after the store returns that result
  exactly, without a new search.
\<close>

theorem put_then_get:
  assumes miss: "read_cache (now_check e) fs
                   (cache_file_name (get_cache_key (hashlib_md5 e) q)) = None"
    and put: "cached_search e fs q n = (Some v, fs')"
    and same: "hashlib_md5 e' = hashlib_md5 e"
    and fresh: "now_check e' - now_store e < 3600"
  shows "read_cache (now_check e') fs'
           (cache_file_name (get_cache_key (hashlib_md5 e) q)) = Some v
         \<and> cached_search e' fs' q n' = (Some v, fs')"
proof -
  let ?name = "cache_file_name (get_cache_key (hashlib_md5 e) q)"
  from miss put have "fresh_search e fs ?name q n = (Some v, fs')"
    by (simp add: cached_search_def)
  then have "map_of fs' ?name = Some (Pickled (now_store e) v)"
    by (rule fresh_search_Some)
  with fresh have r: "read_cache (now_check e') fs' ?name = Some v"
    by (simp add: read_cache_def)
  then show ?thesis
    by (simp add: cached_search_def same)
qed

theorem put_then_get_witness:
  "read_cache (now_check env_search) [(lofi_file, Pickled 0 [])]
     (cache_file_name (get_cache_key (hashlib_md5 env_search) ''lofi'')) = None
   \<and> cached_search env_search [(lofi_file, Pickled 0 [])] ''lofi'' 3
       = (Some [song], [(lofi_file, Pickled 5001 [song])])
   \<and> hashlib_md5 (env0\<lparr>now_check := 8600\<rparr>) = hashlib_md5 env_search
   \<and> now_check (env0\<lparr>now_check := 8600\<rparr>) - now_store env_search < 3600
   \<and> cached_search (env0\<lparr>now_check := 8600\<rparr>) [(lofi_file, Pickled 5001 [song])] ''lofi'' 3
       = (Some [song], [(lofi_file, Pickled 5001 [song])])"
proof -
  let ?fs = "[(lofi_file, Pickled 0 [])]"
  let ?fs' = "[(lofi_file, Pickled 5001 [song])]"
  let ?e' = "env0\<lparr>now_check := 8600\<rparr>"
  have miss: "read_cache (now_check env_search) ?fs
     (cache_file_name (get_cache_key (hashlib_md5 env_search) ''lofi'')) = None"
    by (simp add: read_cache_def env_search_def env0_def lofi_file_def)
  have put: "cached_search env_search ?fs ''lofi'' 3 = (Some [song], ?fs')"
    by (simp add: cached_search_def fresh_search_def read_cache_def env_search_def env0_def
        lofi_file_def)
  have same: "hashlib_md5 ?e' = hashlib_md5 env_search"
    by (simp add: env_search_def env0_def)
  have fresh: "now_check ?e' - now_store env_search < 3600"
    by (simp add: env_search_def env0_def)
  from put_then_get [OF miss put same fresh, of 3]
  have "cached_search ?e' ?fs' ''lofi'' 3 = (Some [song], ?fs')" by simp
  with miss put same fresh show ?thesis by simp
qed

text \<open>
  C7 as stated fails at the end of the window: a result stored at 5001 and looked
  up at 8601 is 3600 seconds old, which is within \<open>now - storedAt \<le> 3600\<close>, and
  the lookup misses (the search, failing here, is tried again).
\<close>

theorem put_then_get_boundary_counterexample:
  "cached_search env_search [] ''lofi'' 3 = (Some [song], [(lofi_file, Pickled 5001 [song])])
   \<and> now_check (env0\<lparr>now_check := 8601\<rparr>) - now_store env_search \<le> 3600
   \<and> read_cache (now_check (env0\<lparr>now_check := 8601\<rparr>)) [(lofi_file, Pickled 5001 [song])]
        lofi_file = None
   \<and> cached_search (env0\<lparr>now_check := 8601\<rparr>) [(lofi_file, Pickled 5001 [song])] ''lofi'' 3
       = (None, [(lofi_file, Pickled 5001 [song])])"
  by (simp add: cached_search_def fresh_search_def read_cache_def env_search_def env0_def
      lofi_file_def)

lemma startswith_append: "startswith (p @ s) p"
  by (induction p) auto

lemma endswith_append: "endswith (s @ p) p"
  by (simp add: endswith_def startswith_append)

lemma cache_file_name_pkl: "endswith (cache_file_name k) ''.pkl''"
  unfolding cache_file_name_def
  using endswith_append [of "''search_'' @ k" "''.pkl''"] by simp

lemma clear_loop_done:
  "clear_loop rm names fs = (None, fs') \<Longrightarrow>
   fst ` set fs' \<subseteq> fst ` set fs
   \<and> (\<forall>n \<in> set names. endswith n ''.pkl'' \<longrightarrow> n \<notin> fst ` set fs')"
proof (induction names arbitrary: fs)
  case Nil
  then show ?case by simp
next
  case (Cons f rest)
  show ?case
  proof (cases "endswith f ''.pkl''")
    case False
    with Cons.prems have "clear_loop rm rest fs = (None, fs')" by simp
    from Cons.IH [OF this] False show ?thesis by auto
  next
    case True
    with Cons.prems have rm: "rm f"
      by (auto split: if_splits)
    with True Cons.prems have "clear_loop rm rest (AList.delete f fs) = (None, fs')"
      by simp
    from Cons.IH [OF this]
    have sub: "fst ` set fs' \<subseteq> fst ` set (AList.delete f fs)"
      and gone: "\<forall>n \<in> set rest. endswith n ''.pkl'' \<longrightarrow> n \<notin> fst ` set fs'"
      by auto
    have "f \<notin> fst ` set (AList.delete f fs)"
      by (rule delete_notin_dom)
    with sub have "f \<notin> fst ` set fs'" by auto
    moreover from sub dom_delete_subset [of f fs]
    have "fst ` set fs' \<subseteq> fst ` set fs" by blast
    ultimately show ?thesis using gone by auto
  qed
qed

lemma clear_loop_no_pkl:
  assumes "clear_loop rm (map fst fs) fs = (None, fs')"
    and "endswith name ''.pkl''"
  shows "map_of fs' name = None"
proof -
  from clear_loop_done [OF assms(1)]
  have sub: "fst ` set fs' \<subseteq> fst ` set fs"
    and gone: "\<forall>n \<in> set (map fst fs). endswith n ''.pkl'' \<longrightarrow> n \<notin> fst ` set fs'"
    by auto
  have "name \<notin> fst ` set fs'"
  proof
    assume "name \<in> fst ` set fs'"
    with sub have "name \<in> set (map fst fs)" by auto
    with gone assms(2) have "name \<notin> fst ` set fs'" by blast
    with \<open>name \<in> fst ` set fs'\<close> show False by contradiction
  qed
  then show ?thesis by (simp add: map_of_eq_None_iff)
qed

text \<open>
  C9: after \<open>clear_cache\<close> has run to its end, the lookup of every cache key
  misses, at any time; the confirmation line has been printed.
\<close>

theorem clear_cache_then_absent:
  assumes "clear_cache e w = (None, w')"
  shows "read_cache now (files w') (cache_file_name k) = None
         \<and> printed w' = printed w @ [CacheCleared]"
proof -
  obtain r fs' where loop: "clear_loop (os_remove e) (map fst (files w)) (files w) = (r, fs')"
    by (cases "clear_loop (os_remove e) (map fst (files w)) (files w)") auto
  with assms have r: "r = None" and w': "w' = w\<lparr>files := fs', printed := printed w @ [CacheCleared]\<rparr>"
    by (auto simp: clear_cache_def split: option.splits)
  from loop r have "map_of fs' (cache_file_name k) = None"
    by (simp add: clear_loop_no_pkl cache_file_name_pkl)
  then show ?thesis
    by (simp add: w' read_cache_def)
qed

theorem clear_cache_then_absent_witness:
  "clear_cache env0 (world0\<lparr>files := [(''search_0.pkl'', Pickled 0 [song]), (''notes.txt'', Unreadable)]\<rparr>)
     = (None, world0\<lparr>files := [(''notes.txt'', Unreadable)], printed := [CacheCleared]\<rparr>)
   \<and> read_cache 10 (files (world0\<lparr>files := [(''notes.txt'', Unreadable)], printed := [CacheCleared]\<rparr>))
        (cache_file_name ''0'') = None"
proof -
  let ?w = "world0\<lparr>files := [(''search_0.pkl'', Pickled 0 [song]), (''notes.txt'', Unreadable)]\<rparr>"
  let ?w' = "world0\<lparr>files := [(''notes.txt'', Unreadable)], printed := [CacheCleared]\<rparr>"
  have c: "clear_cache env0 ?w = (None, ?w')"
    by (simp add: clear_cache_def env0_def world0_def endswith_def AList.delete_eq)
  from clear_cache_then_absent [OF c, of 10 "''0''"]
  have "read_cache 10 (files ?w') (cache_file_name ''0'') = None" by simp
  with c show ?thesis by simp
qed

subsection \<open>Resolution\<close>

lemma cached_search_fails:
  assumes "read_cache (now_check e) fs (cache_file_name (get_cache_key (hashlib_md5 e) q)) = None"
    and "yt_search e q n = Inl err"
  shows "cached_search e fs q n = (None, fs)"
  using assms by (simp add: cached_search_def fresh_search_def)

lemma fast_falls_back:
  assumes "cached_search e fs q 3 = (None, fs')"
  shows "youtube_search_first_fast e fs q
           = (youtube_search_first_original (extract_first e) q, fs')"
  using assms by (simp add: youtube_search_first_fast_def)

text \<open>
  C5: when the cache holds no valid entry for the query and the live search
  raises, \<open>play_youtube\<close> on the fast path returns what the original resolver
  returns: its URL goes to the player in a \<open>loadfile\<close> command and its title is
  printed; if the original resolver raises, nothing is loaded by \<open>play_youtube\<close>,
  and the loop's handler retries the same resolver, so a URL that reaches the
  player is always the original resolver's.
\<close>

theorem search_failure_falls_back:
  assumes miss: "read_cache (now_check e) (files w)
                   (cache_file_name (get_cache_key (hashlib_md5 e) q)) = None"
    and fail: "yt_search e q 3 = Inl err"
  shows "play_youtube e w q True =
           (case youtube_search_first_original (extract_first e) q of
              Inl x \<Rightarrow> (Some x, w)
            | Inr (u, t) \<Rightarrow>
                (None, w\<lparr>printed := printed w @ [Playing t],
                         commands := commands w @ [Loadfile u]\<rparr>))
         \<and> (fast_mode w \<and> q \<noteq> [] \<and> startswith q ''/'' = False \<longrightarrow>
            loop_iteration e w q =
              (case youtube_search_first_original (extract_first e) q of
                 Inr (u, t) \<Rightarrow>
                   (True, w\<lparr>printed := printed w @ [Playing t],
                            commands := commands w @ [Loadfile u]\<rparr>)
               | Inl x \<Rightarrow>
                   (case youtube_search_first_original (extract_retry e) q of
                      Inl y \<Rightarrow>
                        (True, w\<lparr>printed := printed w @ [ErrorMessage x, TryAnother]\<rparr>)
                    | Inr (u, t) \<Rightarrow>
                        (True, w\<lparr>commands := commands w @ [Loadfile u],
                                 printed := printed w @ [ErrorMessage x, PlayingFallback t]\<rparr>))))"
proof -
  from miss fail have "cached_search e (files w) q 3 = (None, files w)"
    by (rule cached_search_fails)
  then have fast: "youtube_search_first_fast e (files w) q
      = (youtube_search_first_original (extract_first e) q, files w)"
    by (rule fast_falls_back)
  have play: "play_youtube e w q True =
           (case youtube_search_first_original (extract_first e) q of
              Inl x \<Rightarrow> (Some x, w)
            | Inr (u, t) \<Rightarrow>
                (None, w\<lparr>printed := printed w @ [Playing t],
                         commands := commands w @ [Loadfile u]\<rparr>))"
    by (simp add: play_youtube_def fast split: sum.splits)
  show ?thesis
  proof (intro conjI impI)
    show "play_youtube e w q True =
           (case youtube_search_first_original (extract_first e) q of
              Inl x \<Rightarrow> (Some x, w)
            | Inr (u, t) \<Rightarrow>
                (None, w\<lparr>printed := printed w @ [Playing t],
                         commands := commands w @ [Loadfile u]\<rparr>))"
      by (rule play)
  next
    assume a: "fast_mode w \<and> q \<noteq> [] \<and> startswith q ''/'' = False"
    then have "try_body e w q = (case play_youtube e w q True of (err, w') \<Rightarrow> (err, True, w'))"
      by (simp add: try_body_def)
    then show "loop_iteration e w q =
              (case youtube_search_first_original (extract_first e) q of
                 Inr (u, t) \<Rightarrow>
                   (True, w\<lparr>printed := printed w @ [Playing t],
                            commands := commands w @ [Loadfile u]\<rparr>)
               | Inl x \<Rightarrow>
                   (case youtube_search_first_original (extract_retry e) q of
                      Inl y \<Rightarrow>
                        (True, w\<lparr>printed := printed w @ [ErrorMessage x, TryAnother]\<rparr>)
                    | Inr (u, t) \<Rightarrow>
                        (True, w\<lparr>commands := commands w @ [Loadfile u],
                                 printed := printed w @ [ErrorMessage x, PlayingFallback t]\<rparr>)))"
      by (simp add: loop_iteration_def play split: sum.splits)
  qed
qed

theorem search_failure_falls_back_witness:
  "read_cache (now_check (env_all\<lparr>yt_search := (\<lambda>q n. Inl SearchError)\<rparr>)) (files world0)
     (cache_file_name (get_cache_key (hashlib_md5 (env_all\<lparr>yt_search := (\<lambda>q n. Inl SearchError)\<rparr>)) ''lofi'')) = None
   \<and> yt_search (env_all\<lparr>yt_search := (\<lambda>q n. Inl SearchError)\<rparr>) ''lofi'' 3 = Inl SearchError
   \<and> fast_mode world0 \<and> ''lofi'' \<noteq> [] \<and> startswith ''lofi'' ''/'' = False
   \<and> play_youtube (env_all\<lparr>yt_search := (\<lambda>q n. Inl SearchError)\<rparr>) world0 ''lofi'' True
       = (None, world0\<lparr>printed := [Playing ''Other''], commands := [Loadfile ''B'']\<rparr>)
   \<and> loop_iteration (env_all\<lparr>yt_search := (\<lambda>q n. Inl SearchError)\<rparr>) world0 ''lofi''
       = (True, world0\<lparr>printed := [Playing ''Other''], commands := [Loadfile ''B'']\<rparr>)"
proof -
  let ?e = "env_all\<lparr>yt_search := (\<lambda>q n. Inl SearchError)\<rparr>"
  have miss: "read_cache (now_check ?e) (files world0)
     (cache_file_name (get_cache_key (hashlib_md5 ?e) ''lofi'')) = None"
    by (simp add: read_cache_def world0_def)
  have fail: "yt_search ?e ''lofi'' 3 = Inl SearchError"
    by simp
  have a: "fast_mode world0 \<and> ''lofi'' \<noteq> [] \<and> startswith ''lofi'' ''/'' = False"
    by (simp add: world0_def)
  have orig: "youtube_search_first_original (extract_first ?e) ''lofi'' = Inr (''B'', ''Other'')"
    by (simp add: youtube_search_first_original_def env_all_def env0_def)
  from search_failure_falls_back [OF miss fail] a orig
  have "play_youtube ?e world0 ''lofi'' True
       = (None, world0\<lparr>printed := printed world0 @ [Playing ''Other''], commands := commands world0 @ [Loadfile ''B'']\<rparr>)
     \<and> loop_iteration ?e world0 ''lofi''
       = (True, world0\<lparr>printed := printed world0 @ [Playing ''Other''], commands := commands world0 @ [Loadfile ''B'']\<rparr>)"
    by simp
  moreover have "printed world0 = [] \<and> commands world0 = []"
    by (simp add: world0_def)
  ultimately show ?thesis using miss fail a by simp
qed

lemma corrupt_entry_is_miss:
  "map_of fs name = Some Unreadable \<Longrightarrow> read_cache now fs name = None"
  by (simp add: read_cache_def)

text \<open>
  C4, the write half, evaluated: the live search finds the song, but opening the
  cache file for writing fails. \<open>cached_search\<close> returns \<open>None\<close>, and the fast
  resolver returns the original resolver's video (URL B, "Other") instead of the
  one the search found (URL A, "Song"), which it returns when the write succeeds.
\<close>

theorem write_failure_discards_result:
  "cached_search (env_all\<lparr>open_wb := (\<lambda>name. OpenFails)\<rparr>) [] ''lofi'' 3 = (None, [])
   \<and> youtube_search_first_fast (env_all\<lparr>open_wb := (\<lambda>name. OpenFails)\<rparr>) [] ''lofi''
       = (Inr (''B'', ''Other''), [])
   \<and> youtube_search_first_fast env_all [] ''lofi''
       = (Inr (''A'', ''Song''), [(lofi_file, Pickled 0 [song])])"
  by (simp add: youtube_search_first_fast_def cached_search_def fresh_search_def read_cache_def
      youtube_search_first_original_def extract_audio_url_async_def extract_body_def
      get_formats_def audio_capable_def fmt_def song_def env_all_def env0_def lofi_file_def)

text \<open>
  C2, evaluated on a cache hit: the pair returned by the fast resolver holds the
  URL that \<open>extract_audio_url_async\<close> computed from the collaborator's answer
  (A for one answer, C for another), so the call has run to its end before the
  title is returned.
\<close>

theorem fast_path_waits_for_extraction:
  "youtube_search_first_fast (env_all\<lparr>now_check := 10\<rparr>) [(lofi_file, Pickled 0 [song])] ''lofi''
     = (Inr (''A'', ''Song''), [(lofi_file, Pickled 0 [song])])
   \<and> youtube_search_first_fast
       (env_all\<lparr>now_check := 10,
                extract_video := (\<lambda>u. Inr \<lparr>i_formats = Some [fmt ''opus'' ''C''], i_url = None\<rparr>)\<rparr>)
       [(lofi_file, Pickled 0 [song])] ''lofi''
     = (Inr (''C'', ''Song''), [(lofi_file, Pickled 0 [song])])"
  by (simp add: youtube_search_first_fast_def cached_search_def fresh_search_def read_cache_def
      extract_audio_url_async_def extract_body_def
      get_formats_def audio_capable_def fmt_def song_def env_all_def env0_def lofi_file_def)

lemma fast_path_result:
  assumes "cached_search e fs q 3 = (Some (r # rs), fs')"
    and "sr_video_id r = Some vid" and "sr_title r = Some t"
    and "extract_audio_url_async e vid = Inr u"
  shows "youtube_search_first_fast e fs q = (Inr (u, t), fs')"
  using assms by (simp add: youtube_search_first_fast_def)

lemma volume_command_out_of_range:
  assumes "split cmd = c # tok # rest" and "py_int tok = Some vol"
    and "vol < 0 \<or> 100 < vol"
  shows "volume_command w cmd = w"
  using assms by (auto simp: volume_command_def)

text \<open>
  C6, evaluated: \<open>/volume 150\<close> and \<open>/volume -5\<close> leave the whole state as it
  was (volume kept, nothing printed) and the loop goes on; the usage line is
  printed only for an argument that is not an integer.
\<close>

theorem volume_out_of_range_silent:
  "loop_iteration e w ''/volume 150'' = (True, w)
   \<and> loop_iteration e w ''/volume -5'' = (True, w)
   \<and> loop_iteration e w ''/volume abc'' = (True, w\<lparr>printed := printed w @ [VolumeUsage]\<rparr>)"
  by (simp add: loop_iteration_def try_body_def volume_command_def lower_def lower_char_def
      split_def isspace_def py_int_def unsigned_int_def is_digit_def)

subsection \<open>Module load\<close>

lemma load_never_succeeds:
  "(case load_module importable runtime_error of
      (err, globals, main_entered) \<Rightarrow>
        err \<noteq> None \<and> main_entered = False
        \<and> ''player'' \<notin> set globals \<and> ''executor'' \<notin> set globals
        \<and> ''get_cache_key'' \<notin> set globals \<and> ''cached_search'' \<notin> set globals
        \<and> ''youtube_search_first_fast'' \<notin> set globals
        \<and> ''extract_audio_url_async'' \<notin> set globals
        \<and> ''youtube_search_first_original'' \<notin> set globals
        \<and> ''play_youtube'' \<notin> set globals \<and> ''clear_cache'' \<notin> set globals)"
  by (simp add: load_module_def tt_media_player_def initial_globals_def builtins_def
      split: option.splits)

lemma load_name_error:
  assumes "list_all importable imported_modules"
    and "list_all (\<lambda>line. runtime_error line = None) [9, 16, 19, 20]"
  shows "load_module importable runtime_error =
     (Some (NameError ''yes''),
      initial_globals @ [''os'', ''hashlib'', ''pickle'', ''threading'', ''ThreadPoolExecutor'',
        ''time'', ''MPV'', ''yt_dlp'', ''search'', ''warnings'', ''CACHE_DIR''],
      False)"
  using assms
  by (simp add: imported_modules_def load_module_def tt_media_player_def initial_globals_def builtins_def)

text \<open>
  C10: loading the module always ends in an exception before the player, the
  executor and any function is bound and before the interactive loop is
  entered; when the imports succeed and the statements before line 23 run, that
  exception is NameError for the name \<open>yes\<close>.
\<close>

theorem module_load_raises_name_error:
  "(case load_module importable runtime_error of
      (err, globals, main_entered) \<Rightarrow>
        err \<noteq> None \<and> main_entered = False
        \<and> ''player'' \<notin> set globals \<and> ''executor'' \<notin> set globals
        \<and> ''get_cache_key'' \<notin> set globals \<and> ''cached_search'' \<notin> set globals
        \<and> ''youtube_search_first_fast'' \<notin> set globals
        \<and> ''extract_audio_url_async'' \<notin> set globals
        \<and> ''youtube_search_first_original'' \<notin> set globals
        \<and> ''play_youtube'' \<notin> set globals \<and> ''clear_cache'' \<notin> set globals)
   \<and> (list_all importable imported_modules
        \<and> list_all (\<lambda>line. runtime_error line = None) [9, 16, 19, 20] \<longrightarrow>
      load_module importable runtime_error =
        (Some (NameError ''yes''),
         initial_globals @ [''os'', ''hashlib'', ''pickle'', ''threading'',
           ''ThreadPoolExecutor'', ''time'', ''MPV'', ''yt_dlp'', ''search'', ''warnings'',
           ''CACHE_DIR''],
         False))"
  using load_never_succeeds [of importable runtime_error]
    load_name_error [of importable runtime_error]
  by blast

theorem module_load_raises_name_error_witness:
  "list_all (\<lambda>m. True) imported_modules
   \<and> list_all (\<lambda>line. (if line = 38 then Some OSError else None) = None) [9, 16, 19, 20 :: nat]
   \<and> load_module (\<lambda>m. True) (\<lambda>line. if line = 38 then Some OSError else None) =
        (Some (NameError ''yes''),
         initial_globals @ [''os'', ''hashlib'', ''pickle'', ''threading'',
           ''ThreadPoolExecutor'', ''time'', ''MPV'', ''yt_dlp'', ''search'', ''warnings'',
           ''CACHE_DIR''],
         False)"
proof -
  have a: "list_all (\<lambda>m :: string. True) imported_modules"
    by (simp add: imported_modules_def)
  have b: "list_all (\<lambda>line. (if line = 38 then Some OSError else None) = None)
             [9, 16, 19, 20 :: nat]"
    by simp
  from module_load_raises_name_error
         [of "\<lambda>m. True" "\<lambda>line. if line = 38 then Some OSError else None"] a b
  show ?thesis by blast
qed

end
